theory Spec2Isabelle
  imports Complex_Main
begin

section \<open>The state engine of ChillMCP (src/state/manager.py, src/config.py)\<close>

text \<open>
  Python's unbounded \<open>int\<close> is \<^typ>\<open>int\<close>. A timestamp (the float that
  \<open>time.time()\<close> returns) is a \<^typ>\<open>real\<close>: the code only stores and copies
  timestamps. Everything the code takes from its surroundings is explicit:
  \<^item> the wall clock is the field \<open>clock\<close> of a \<open>world\<close>; \<open>time.time()\<close> reads it and
    \<open>time.sleep(d)\<close> advances it by \<open>d\<close> (no other statement takes time in the model);
  \<^item> the outcome of \<open>random.randint\<close> is computed from an arbitrary natural number \<open>raw\<close>
    of entropy that the caller of the model supplies;
  \<^item> the configuration object \<open>config\<close> is a parameter \<open>cfg\<close>.
  A \<open>with self._lock:\<close> block is one atomic step of the model.
\<close>

subsection \<open>Constants of src/config.py\<close>

definition STRESS_MIN :: int where "STRESS_MIN = 0"
definition STRESS_MAX :: int where "STRESS_MAX = 100"
definition BOSS_ALERT_MIN :: int where "BOSS_ALERT_MIN = 0"
definition BOSS_ALERT_MAX :: int where "BOSS_ALERT_MAX = 5"
definition STRESS_INCREASE_INTERVAL :: int where "STRESS_INCREASE_INTERVAL = 60"
definition BOSS_ALERT_DELAY :: int where "BOSS_ALERT_DELAY = 20"

text \<open>The two validated fields of the class \<open>Config\<close>.\<close>

record Config =
  boss_alertness :: int
  boss_alertness_cooldown :: int

text \<open>\<open>Config._validate_alertness\<close>: \<open>max(0, min(100, value))\<close>.\<close>

definition validate_alertness :: "int \<Rightarrow> int" where
  "validate_alertness v = max 0 (min 100 v)"

text \<open>
  \<open>Config.__init__\<close>, from the two parsed command-line integers:
  \<open>boss_alertness\<close> is clamped and \<open>boss_alertness_cooldown\<close> is \<open>max(1, ...)\<close>.
\<close>

definition Config_init :: "int \<Rightarrow> int \<Rightarrow> Config" where
  "Config_init arg_alertness arg_cooldown =
     \<lparr>boss_alertness = validate_alertness arg_alertness,
      boss_alertness_cooldown = max 1 arg_cooldown\<rparr>"

subsection \<open>The surroundings: clock and random draws\<close>

record world =
  clock :: real

definition time_time :: "world \<Rightarrow> real" where
  "time_time w = clock w"

definition time_sleep :: "int \<Rightarrow> world \<Rightarrow> world" where
  "time_sleep d w = w\<lparr>clock := clock w + real_of_int d\<rparr>"

text \<open>
  \<open>random.randint(a, b)\<close> returns an integer \<open>N\<close> with \<open>a \<le> N \<le> b\<close>. The model
  computes it from the entropy \<open>raw\<close>; every integer of the range is the result for
  some \<open>raw\<close> (lemma \<open>randint_onto\<close> below).
\<close>

definition randint :: "int \<Rightarrow> int \<Rightarrow> nat \<Rightarrow> int" where
  "randint a b raw = a + int (raw mod nat (b - a + 1))"

subsection \<open>The frozen dataclass \<open>State\<close> and its \<open>with_...\<close> methods\<close>

record State =
  stress_level :: int
  boss_alert_level :: int
  last_activity_time :: real

text \<open>
  \<open>with_stress_decrease\<close> reads the clock (\<open>time.time()\<close>) for the new timestamp;
  the other three methods copy \<open>last_activity_time\<close>.
\<close>

definition with_stress_decrease :: "world \<Rightarrow> State \<Rightarrow> int \<Rightarrow> State" where
  "with_stress_decrease w self decrease =
     (let new_stress = max STRESS_MIN (stress_level self - decrease)
      in \<lparr>stress_level = new_stress,
          boss_alert_level = boss_alert_level self,
          last_activity_time = time_time w\<rparr>)"

definition with_boss_increase :: "State \<Rightarrow> State" where
  "with_boss_increase self =
     (let new_boss = min BOSS_ALERT_MAX (boss_alert_level self + 1)
      in \<lparr>stress_level = stress_level self,
          boss_alert_level = new_boss,
          last_activity_time = last_activity_time self\<rparr>)"

definition with_boss_decrease :: "State \<Rightarrow> State" where
  "with_boss_decrease self =
     (let new_boss = max BOSS_ALERT_MIN (boss_alert_level self - 1)
      in \<lparr>stress_level = stress_level self,
          boss_alert_level = new_boss,
          last_activity_time = last_activity_time self\<rparr>)"

definition with_stress_increase :: "State \<Rightarrow> State" where
  "with_stress_increase self =
     (let new_stress = min STRESS_MAX (stress_level self + 1)
      in \<lparr>stress_level = new_stress,
          boss_alert_level = boss_alert_level self,
          last_activity_time = last_activity_time self\<rparr>)"

text \<open>\<open>should_boss_alert_increase\<close>: \<open>random.randint(1, 100) <= alertness_probability\<close>.\<close>

definition should_boss_alert_increase :: "nat \<Rightarrow> int \<Rightarrow> bool" where
  "should_boss_alert_increase raw alertness_probability =
     (randint 1 100 raw \<le> alertness_probability)"

subsection \<open>The class \<open>StateManager\<close>\<close>

text \<open>
  The fields \<open>_state\<close> and \<open>_running\<close>. The lock is not a field of the model: each
  method body below is the body of its \<open>with self._lock:\<close> block, executed as one step.
\<close>

record StateManager =
  state :: State
  running :: bool

text \<open>\<open>__init__\<close>: stress 50, alert 0, the timestamp read from the clock.\<close>

definition StateManager_init :: "world \<Rightarrow> StateManager" where
  "StateManager_init w =
     \<lparr>state = \<lparr>stress_level = 50, boss_alert_level = 0, last_activity_time = time_time w\<rparr>,
      running = True\<rparr>"

text \<open>
  \<open>take_break\<close> returns the pair of levels, and the model returns with it the manager
  and the world after the call. The steps are the source's: the delay when the alert
  level is at its maximum, the draw, the decrease (which reads the clock after the
  delay), the conditional alert increase, the assignment to \<open>_state\<close>.
\<close>

definition take_break ::
  "Config \<Rightarrow> nat \<Rightarrow> int \<Rightarrow> StateManager \<Rightarrow> world \<Rightarrow> (int \<times> int) \<times> StateManager \<times> world" where
  "take_break cfg raw stress_decrease self w =
     (let w1 = (if boss_alert_level (state self) = BOSS_ALERT_MAX
                then time_sleep BOSS_ALERT_DELAY w else w);
          boss_increase = should_boss_alert_increase raw (boss_alertness cfg);
          new_state = with_stress_decrease w1 (state self) stress_decrease;
          new_state1 = (if boss_increase then with_boss_increase new_state else new_state);
          self1 = self\<lparr>state := new_state1\<rparr>
      in ((stress_level (state self1), boss_alert_level (state self1)), self1, w1))"

definition get_state :: "StateManager \<Rightarrow> world \<Rightarrow> (int \<times> int) \<times> StateManager \<times> world" where
  "get_state self w = ((stress_level (state self), boss_alert_level (state self)), self, w)"

definition reset :: "StateManager \<Rightarrow> world \<Rightarrow> StateManager \<times> world" where
  "reset self w =
     (self\<lparr>state := \<lparr>stress_level = 50, boss_alert_level = 0,
                      last_activity_time = time_time w\<rparr>\<rparr>, w)"

definition stop :: "StateManager \<Rightarrow> StateManager" where
  "stop self = self\<lparr>running := False\<rparr>"

text \<open>
  The locked blocks of the two background loops: one assignment to \<open>_state\<close> each.
\<close>

definition stress_tick :: "StateManager \<Rightarrow> StateManager" where
  "stress_tick self = self\<lparr>state := with_stress_increase (state self)\<rparr>"

definition boss_tick :: "StateManager \<Rightarrow> StateManager" where
  "boss_tick self = self\<lparr>state := with_boss_decrease (state self)\<rparr>"

text \<open>
  \<open>_auto_increase_stress\<close>: \<open>while self._running:\<close> sleep for the fixed interval of
  60, then the locked block. The loop does not end while \<open>_running\<close> holds, so the
  model runs at most \<open>n\<close> iterations of it (with no other thread in between). Of
  \<open>_auto_decrease_boss_alert\<close> only the locked block \<open>boss_tick\<close> is modelled: its
  sleep takes the configured cooldown, which \<open>time.sleep\<close> refuses when it is too large.
\<close>

fun auto_increase_stress :: "nat \<Rightarrow> StateManager \<Rightarrow> world \<Rightarrow> StateManager \<times> world" where
  "auto_increase_stress 0 self w = (self, w)"
| "auto_increase_stress (Suc n) self w =
     (if running self
      then auto_increase_stress n (stress_tick self) (time_sleep STRESS_INCREASE_INTERVAL w)
      else (self, w))"

subsection \<open>Sequences of operations on one manager\<close>

text \<open>
  The lock orders the critical sections of all threads in one sequence. An element of
  such a sequence is a call of \<open>take_break\<close> (with its argument, the entropy of its draw
  and the world it runs in), a locked block of one of the two loops, or a call of
  \<open>reset\<close> (with the world it runs in).
\<close>

datatype operation =
  TakeBreak int nat world
| StressTick
| BossTick
| Reset world

fun apply_operation :: "Config \<Rightarrow> StateManager \<Rightarrow> operation \<Rightarrow> StateManager" where
  "apply_operation cfg self (TakeBreak stress_decrease raw w) =
     fst (snd (take_break cfg raw stress_decrease self w))"
| "apply_operation cfg self StressTick = stress_tick self"
| "apply_operation cfg self BossTick = boss_tick self"
| "apply_operation cfg self (Reset w) = fst (reset self w)"

text \<open>The managers a sequence of operations goes through, the first one included.\<close>

fun managers_of :: "Config \<Rightarrow> StateManager \<Rightarrow> operation list \<Rightarrow> StateManager list" where
  "managers_of cfg self [] = [self]"
| "managers_of cfg self (op # ops) = self # managers_of cfg (apply_operation cfg self op) ops"

text \<open>The argument of a \<open>take_break\<close> in a sequence is not negative.\<close>

fun nonneg_amount :: "operation \<Rightarrow> bool" where
  "nonneg_amount (TakeBreak stress_decrease raw w) = (0 \<le> stress_decrease)"
| "nonneg_amount StressTick = True"
| "nonneg_amount BossTick = True"
| "nonneg_amount (Reset w) = True"

text \<open>The documented ranges of the two levels.\<close>

definition within_bounds :: "State \<Rightarrow> bool" where
  "within_bounds s =
     (0 \<le> stress_level s \<and> stress_level s \<le> 100
      \<and> 0 \<le> boss_alert_level s \<and> boss_alert_level s \<le> 5)"

text \<open>
  How a call of \<open>take_break\<close> ends. Its body has no \<open>raise\<close> and no check of its
  argument, so every call returns.
\<close>

datatype error = InvalidArgument

definition take_break_outcome ::
  "Config \<Rightarrow> nat \<Rightarrow> int \<Rightarrow> StateManager \<Rightarrow> world
     \<Rightarrow> error + ((int \<times> int) \<times> StateManager \<times> world)" where
  "take_break_outcome cfg raw stress_decrease self w =
     Inr (take_break cfg raw stress_decrease self w)"

section \<open>Properties\<close>

lemmas constants =
  STRESS_MIN_def STRESS_MAX_def BOSS_ALERT_MIN_def BOSS_ALERT_MAX_def
  STRESS_INCREASE_INTERVAL_def BOSS_ALERT_DELAY_def

lemmas transitions =
  with_stress_decrease_def with_boss_increase_def with_boss_decrease_def
  with_stress_increase_def

subsection \<open>The draw\<close>

lemma randint_range: "a \<le> b \<Longrightarrow> a \<le> randint a b raw \<and> randint a b raw \<le> b"
proof -
  assume ab: "a \<le> b"
  then have pos: "0 < nat (b - a + 1)" by simp
  have "raw mod nat (b - a + 1) < nat (b - a + 1)"
    using pos by (rule mod_less_divisor)
  then have "int (raw mod nat (b - a + 1)) < b - a + 1"
    using ab by linarith
  then show ?thesis by (simp add: randint_def)
qed

lemma randint_onto: "a \<le> n \<Longrightarrow> n \<le> b \<Longrightarrow> randint a b (nat (n - a)) = n"
  by (simp add: randint_def)

lemma randint_1_100: "1 \<le> randint 1 100 raw \<and> randint 1 100 raw \<le> 100"
  by (rule randint_range) simp

subsection \<open>Bounds of the two levels\<close>

lemma init_bounds: "within_bounds (state (StateManager_init w))"
  by (simp add: StateManager_init_def within_bounds_def)

lemma apply_operation_bounds:
  "within_bounds (state m) \<Longrightarrow> nonneg_amount op \<Longrightarrow>
   within_bounds (state (apply_operation cfg m op))"
  by (cases op)
    (auto simp: within_bounds_def take_break_def reset_def stress_tick_def boss_tick_def
      transitions constants Let_def)

lemma managers_of_bounds:
  "within_bounds (state m) \<Longrightarrow> list_all nonneg_amount ops \<Longrightarrow>
   list_all (\<lambda>m. within_bounds (state m)) (managers_of cfg m ops)"
proof (induction ops arbitrary: m)
  case Nil
  then show ?case by simp
next
  case (Cons op ops)
  then show ?case by (simp add: apply_operation_bounds)
qed

text \<open>
  C1. Bounds invariant: start from the initial manager (stress level 50, alert level 0)
  and apply any finite sequence of calls of \<open>take_break\<close> with an argument that is not
  negative, locked blocks of the stress loop and of the alert loop, and calls of
  \<open>reset\<close>. Every manager on the way, the first and the last included, has
  \<open>0 \<le> stress_level \<le> 100\<close> and \<open>0 \<le> boss_alert_level \<le> 5\<close>.
\<close>

theorem bounds_invariant:
  assumes "list_all nonneg_amount ops"
  shows "list_all (\<lambda>m. within_bounds (state m))
           (managers_of cfg (StateManager_init w0) ops)"
  using init_bounds assms by (rule managers_of_bounds)

theorem bounds_invariant_witness:
  "list_all nonneg_amount
     [TakeBreak 20 0 \<lparr>clock = 1\<rparr>, StressTick, BossTick, TakeBreak 200 49 \<lparr>clock = 2\<rparr>,
      Reset \<lparr>clock = 3\<rparr>]
   \<and> list_all (\<lambda>m. within_bounds (state m))
       (managers_of (Config_init 50 300) (StateManager_init \<lparr>clock = 0\<rparr>)
          [TakeBreak 20 0 \<lparr>clock = 1\<rparr>, StressTick, BossTick, TakeBreak 200 49 \<lparr>clock = 2\<rparr>,
           Reset \<lparr>clock = 3\<rparr>])"
  using bounds_invariant [of "[TakeBreak 20 0 \<lparr>clock = 1\<rparr>, StressTick, BossTick,
      TakeBreak 200 49 \<lparr>clock = 2\<rparr>, Reset \<lparr>clock = 3\<rparr>]" "Config_init 50 300" "\<lparr>clock = 0\<rparr>"]
  by simp

subsection \<open>Negative arguments of \<open>take_break\<close>\<close>

text \<open>
  C2, as stated, fails. The claim: for every negative amount \<open>take_break\<close> rejects the
  call with an invalid-argument condition. At stress level 50 the call with the
  amount \<open>-5\<close> returns \<open>(55, 0)\<close> and installs the state with stress level 55.
\<close>

theorem negative_amount_counterexample:
  "take_break_outcome \<lparr>boss_alertness = 0, boss_alertness_cooldown = 300\<rparr> 0 (- 5)
     \<lparr>state = \<lparr>stress_level = 50, boss_alert_level = 0, last_activity_time = 0\<rparr>,
      running = True\<rparr> \<lparr>clock = 1\<rparr>
   = Inr ((55, 0),
          \<lparr>state = \<lparr>stress_level = 55, boss_alert_level = 0, last_activity_time = 1\<rparr>,
           running = True\<rparr>,
          \<lparr>clock = 1\<rparr>)"
  by (simp add: take_break_outcome_def take_break_def should_boss_alert_increase_def
      randint_def transitions time_time_def constants Let_def)

text \<open>
  C2, amended. \<open>take_break\<close> neither rejects a negative amount nor clamps or adjusts
  it: for every integer amount, the negative ones included, the call returns, and the
  stress level it installs and returns is \<open>max 0 (stress_level - amount)\<close>, computed
  from the amount as it was given. So for a negative amount the stress level rises:
  the new one is greater than the old one. The alert level it installs and returns is
  the old one, raised by one up to 5 when the draw escalates.
\<close>

theorem negative_amount_used_as_given:
  "take_break_outcome cfg raw amount m w = Inr (take_break cfg raw amount m w)
   \<and> fst (take_break cfg raw amount m w) =
       (max 0 (stress_level (state m) - amount),
        if should_boss_alert_increase raw (boss_alertness cfg)
        then min 5 (boss_alert_level (state m) + 1)
        else boss_alert_level (state m))
   \<and> stress_level (state (fst (snd (take_break cfg raw amount m w))))
       = max 0 (stress_level (state m) - amount)
   \<and> boss_alert_level (state (fst (snd (take_break cfg raw amount m w))))
       = (if should_boss_alert_increase raw (boss_alertness cfg)
          then min 5 (boss_alert_level (state m) + 1)
          else boss_alert_level (state m))
   \<and> (amount < 0 \<longrightarrow>
        stress_level (state m)
          < stress_level (state (fst (snd (take_break cfg raw amount m w)))))"
  by (auto simp add: take_break_outcome_def take_break_def transitions constants Let_def)

theorem negative_amount_used_as_given_witness:
  "(- 5 :: int) < 0
   \<and> stress_level (state (StateManager_init \<lparr>clock = 0\<rparr>))
       < stress_level (state (fst (snd (take_break (Config_init 50 300) 7 (- 5)
           (StateManager_init \<lparr>clock = 0\<rparr>) \<lparr>clock = 1\<rparr>))))
   \<and> fst (fst (take_break (Config_init 50 300) 7 (- 5)
           (StateManager_init \<lparr>clock = 0\<rparr>) \<lparr>clock = 1\<rparr>)) = 55"
  using negative_amount_used_as_given [of "Config_init 50 300" 7 "- 5"
      "StateManager_init \<lparr>clock = 0\<rparr>" "\<lparr>clock = 1\<rparr>"]
  by (simp add: StateManager_init_def)

subsection \<open>A scenario\<close>

text \<open>
  C3. End-to-end scenario: from a manager with stress level 50 and alert level 0,
  \<open>take_break\<close> with 20 and a draw that does not escalate returns \<open>(30, 0)\<close>; then
  \<open>take_break\<close> with 40 and a draw that escalates returns \<open>(0, 1)\<close>, the stress level
  stopping at 0; then \<open>get_state\<close> returns \<open>(0, 1)\<close> and leaves the manager as it is.
\<close>

theorem end_to_end_scenario:
  assumes "\<not> should_boss_alert_increase rawa (boss_alertness cfga)"
    and "should_boss_alert_increase rawb (boss_alertness cfgb)"
  shows "(let m0 = m\<lparr>state := \<lparr>stress_level = 50, boss_alert_level = 0,
                                  last_activity_time = t\<rparr>\<rparr>;
              (r1, m1, w1) = take_break cfga rawa 20 m0 wa;
              (r2, m2, w2) = take_break cfgb rawb 40 m1 wb
          in r1 = (30, 0) \<and> r2 = (0, 1) \<and> get_state m2 wc = ((0, 1), m2, wc))"
  using assms
  by (simp add: take_break_def get_state_def transitions constants Let_def)

theorem end_to_end_scenario_witness:
  "\<not> should_boss_alert_increase 50 (boss_alertness (Config_init 50 300))
   \<and> should_boss_alert_increase 49 (boss_alertness (Config_init 50 300))
   \<and> (let m0 = (StateManager_init \<lparr>clock = 0\<rparr>)
               \<lparr>state := \<lparr>stress_level = 50, boss_alert_level = 0, last_activity_time = 0\<rparr>\<rparr>;
           (r1, m1, w1) = take_break (Config_init 50 300) 50 20 m0 \<lparr>clock = 1\<rparr>;
           (r2, m2, w2) = take_break (Config_init 50 300) 49 40 m1 \<lparr>clock = 2\<rparr>
       in r1 = (30, 0) \<and> r2 = (0, 1) \<and> get_state m2 \<lparr>clock = 3\<rparr> = ((0, 1), m2, \<lparr>clock = 3\<rparr>))"
proof -
  have a: "\<not> should_boss_alert_increase 50 (boss_alertness (Config_init 50 300))"
    by (simp add: should_boss_alert_increase_def randint_def Config_init_def
        validate_alertness_def)
  have b: "should_boss_alert_increase 49 (boss_alertness (Config_init 50 300))"
    by (simp add: should_boss_alert_increase_def randint_def Config_init_def
        validate_alertness_def)
  show ?thesis
    using a b end_to_end_scenario [OF a b, where m = "StateManager_init \<lparr>clock = 0\<rparr>"
        and t = 0 and wa = "\<lparr>clock = 1\<rparr>" and wb = "\<lparr>clock = 2\<rparr>"
        and wc = "\<lparr>clock = 3\<rparr>"]
    by simp
qed

subsection \<open>The transitions\<close>

text \<open>
  C4. Transition definitions with saturation: for every state and every amount,
  the caller-triggered decrease yields the stress level \<open>max 0 (stress_level - amount)\<close>
  and keeps the alert level; the alert increase yields \<open>min 5 (alert level + 1)\<close> and
  keeps the stress level. At stress level 5 a decrease by 50 gives 0, and at alert
  level 5 the increase gives 5.
\<close>

theorem transitions_saturate:
  "stress_level (with_stress_decrease w s amount) = max 0 (stress_level s - amount)
   \<and> boss_alert_level (with_stress_decrease w s amount) = boss_alert_level s
   \<and> boss_alert_level (with_boss_increase s) = min 5 (boss_alert_level s + 1)
   \<and> stress_level (with_boss_increase s) = stress_level s
   \<and> stress_level (with_stress_decrease w (s\<lparr>stress_level := 5\<rparr>) 50) = 0
   \<and> boss_alert_level (with_boss_increase (s\<lparr>boss_alert_level := 5\<rparr>)) = 5"
  by (simp add: with_stress_decrease_def with_boss_increase_def constants)

text \<open>
  C5. Probability boundary: whatever integer of \<open>[1, 100]\<close> is drawn, probability 0
  never escalates and probability 100 always does; in general the decision is true
  exactly when the drawn integer is at most the probability.
\<close>

theorem probability_boundary:
  "1 \<le> randint 1 100 raw \<and> randint 1 100 raw \<le> 100
   \<and> \<not> should_boss_alert_increase raw 0
   \<and> should_boss_alert_increase raw 100
   \<and> should_boss_alert_increase raw p = (randint 1 100 raw \<le> p)"
  using randint_1_100 [of raw] by (simp add: should_boss_alert_increase_def)

subsection \<open>The timestamp\<close>

text \<open>
  C6, as stated, fails. The claim: a caller-triggered decrease that does not change
  the stress level leaves \<open>last_activity_time\<close> as it was. A decrease by 0 at clock 10
  keeps the stress level 50 and replaces the timestamp 0 by 10.
\<close>

theorem last_activity_time_counterexample:
  "stress_level (with_stress_decrease \<lparr>clock = 10\<rparr>
      \<lparr>stress_level = 50, boss_alert_level = 0, last_activity_time = 0\<rparr> 0)
     = stress_level \<lparr>stress_level = 50, boss_alert_level = 0, last_activity_time = 0\<rparr>
   \<and> last_activity_time (with_stress_decrease \<lparr>clock = 10\<rparr>
      \<lparr>stress_level = 50, boss_alert_level = 0, last_activity_time = 0\<rparr> 0)
     \<noteq> last_activity_time \<lparr>stress_level = 50, boss_alert_level = 0, last_activity_time = 0\<rparr>"
  by (simp add: with_stress_decrease_def time_time_def constants)

text \<open>
  C6, amended. Every caller-triggered decrease sets \<open>last_activity_time\<close> to the
  current time, whether the stress level changes or not, and so does every
  \<open>take_break\<close>; the alert increase, the alert decrease and the stress increase carry
  \<open>last_activity_time\<close> forward as it is.
\<close>

theorem last_activity_time_frame:
  "last_activity_time (with_stress_decrease w s amount) = time_time w
   \<and> last_activity_time (with_boss_increase s) = last_activity_time s
   \<and> last_activity_time (with_boss_decrease s) = last_activity_time s
   \<and> last_activity_time (with_stress_increase s) = last_activity_time s
   \<and> last_activity_time (state (fst (snd (take_break cfg raw amount m w))))
       = time_time (snd (snd (take_break cfg raw amount m w)))"
  by (simp add: take_break_def transitions Let_def)

subsection \<open>The delay at the maximal alert level\<close>

text \<open>
  C7. Threshold delay: \<open>take_break\<close> sleeps 20 time units exactly when the alert level
  it finds on entry is 5, and not at all otherwise; the sleep comes before the new
  state is computed, whose timestamp is the clock after the sleep. \<open>get_state\<close> does
  not sleep and leaves the manager as it is.
\<close>

theorem threshold_delay:
  "(clock (snd (snd (take_break cfg raw amount m w))) = clock w + 20)
     = (boss_alert_level (state m) = 5)
   \<and> (clock (snd (snd (take_break cfg raw amount m w))) = clock w)
     = (boss_alert_level (state m) \<noteq> 5)
   \<and> last_activity_time (state (fst (snd (take_break cfg raw amount m w))))
     = clock (snd (snd (take_break cfg raw amount m w)))
   \<and> snd (get_state m w) = (m, w)"
  by (simp add: take_break_def get_state_def transitions time_sleep_def time_time_def
      constants Let_def)

subsection \<open>The stress loop\<close>

lemma with_stress_increase_funpow_stress:
  "stress_level s \<le> 100 \<Longrightarrow>
   stress_level ((with_stress_increase ^^ n) s) = min 100 (stress_level s + int n)"
  by (induction n) (auto simp: with_stress_increase_def constants)

lemma with_stress_increase_funpow_frame:
  "boss_alert_level ((with_stress_increase ^^ n) s) = boss_alert_level s
   \<and> last_activity_time ((with_stress_increase ^^ n) s) = last_activity_time s"
  by (induction n) (auto simp: with_stress_increase_def)

lemma auto_increase_stress_running:
  "running m \<Longrightarrow>
   auto_increase_stress n m w =
     (m\<lparr>state := (with_stress_increase ^^ n) (state m)\<rparr>,
      w\<lparr>clock := clock w + 60 * real n\<rparr>)"
proof (induction n arbitrary: m w)
  case 0
  then show ?case by simp
next
  case (Suc n)
  have "running (stress_tick m)" using Suc.prems by (simp add: stress_tick_def)
  then show ?case
    using Suc.prems Suc.IH [of "stress_tick m" "time_sleep STRESS_INCREASE_INTERVAL w"]
    by (simp add: stress_tick_def time_sleep_def constants funpow_swap1 algebra_simps)
qed

text \<open>
  C9. Decay iteration: for every natural number \<open>N\<close>, the stress increase applied
  \<open>N\<close> times to a state with stress level 90 gives the stress level
  \<open>min 100 (90 + N)\<close> and keeps the alert level and the timestamp; \<open>N\<close> iterations of
  the stress loop of a running manager install that state.
\<close>

theorem decay_iteration:
  "stress_level ((with_stress_increase ^^ N) (s\<lparr>stress_level := 90\<rparr>)) = min 100 (90 + int N)
   \<and> boss_alert_level ((with_stress_increase ^^ N) (s\<lparr>stress_level := 90\<rparr>))
       = boss_alert_level s
   \<and> last_activity_time ((with_stress_increase ^^ N) (s\<lparr>stress_level := 90\<rparr>))
       = last_activity_time s
   \<and> state (fst (auto_increase_stress N
         (m\<lparr>state := s\<lparr>stress_level := 90\<rparr>, running := True\<rparr>) w))
       = (with_stress_increase ^^ N) (s\<lparr>stress_level := 90\<rparr>)"
  using with_stress_increase_funpow_stress [of "s\<lparr>stress_level := 90\<rparr>" N]
    with_stress_increase_funpow_frame [of N "s\<lparr>stress_level := 90\<rparr>"]
    auto_increase_stress_running [of "m\<lparr>state := s\<lparr>stress_level := 90\<rparr>, running := True\<rparr>" N w]
  by simp

subsection \<open>No upper clamp on the caller-triggered decrease\<close>

text \<open>
  C10. For every state and every integer amount, the negative ones included, the
  caller-triggered decrease gives the stress level \<open>max 0 (stress_level - amount)\<close>,
  with no upper bound. At stress level 50, \<open>take_break\<close> with the amount \<open>-60\<close>
  returns, returns the stress level 110 and installs a state with stress level 110,
  above 100.
\<close>

theorem no_upper_clamp:
  "stress_level (with_stress_decrease w s amount) = max 0 (stress_level s - amount)
   \<and> take_break_outcome cfg raw (- 60) (m\<lparr>state := s\<lparr>stress_level := 50\<rparr>\<rparr>) w
      = Inr (take_break cfg raw (- 60) (m\<lparr>state := s\<lparr>stress_level := 50\<rparr>\<rparr>) w)
   \<and> fst (fst (take_break cfg raw (- 60) (m\<lparr>state := s\<lparr>stress_level := 50\<rparr>\<rparr>) w)) = 110
   \<and> stress_level (state (fst (snd (take_break cfg raw (- 60)
        (m\<lparr>state := s\<lparr>stress_level := 50\<rparr>\<rparr>) w)))) = 110
   \<and> 100 < stress_level (state (fst (snd (take_break cfg raw (- 60)
        (m\<lparr>state := s\<lparr>stress_level := 50\<rparr>\<rparr>) w))))
   \<and> \<not> within_bounds (state (fst (snd (take_break cfg raw (- 60)
        (m\<lparr>state := s\<lparr>stress_level := 50\<rparr>\<rparr>) w))))"
  by (simp add: take_break_outcome_def take_break_def within_bounds_def transitions
      constants Let_def)

end
